theory Spec2Isabelle
  imports Main "HOL-Library.AList"
begin

section \<open>Python values, exceptions and string helpers\<close>

text \<open>
  The repository is a Python program (\<^verbatim>\<open>src/process_collector.py\<close> and
  \<^verbatim>\<open>src/output_formatter.py\<close>). Every \<^verbatim>\<open>raise\<close> is a value: a function that can
  raise returns \<open>exn + 'a\<close>, with \<open>Inl\<close> the exception. An exception carries the class
  that the source's \<^verbatim>\<open>except\<close> clauses test and the text \<^verbatim>\<open>str(e)\<close> that the source
  copies into records. Only subclasses of \<^verbatim>\<open>Exception\<close> are modelled
  (\<^verbatim>\<open>KeyboardInterrupt\<close> and \<^verbatim>\<open>SystemExit\<close> are not); \<^verbatim>\<open>print\<close> has no effect on
  any returned value and is left out.
\<close>

datatype exn_class =
    PermissionError | NoSuchProcess | AccessDenied | ValueError | IndexError
  | KeyError | AttributeError | ZeroDivisionError | OtherException

datatype exn = Exn exn_class string

fun str_exn :: "exn \<Rightarrow> string" where
  "str_exn (Exn c m) = m"

fun class_of :: "exn \<Rightarrow> exn_class" where
  "class_of (Exn c m) = c"

text \<open>
  Python floats stay abstract (the type variable \<open>'f\<close>): the operations the source applies
  to them are parameters, collected in \<open>pyops\<close> below.
\<close>

datatype 'f pyval = PyNone | PyBool bool | PyInt int | PyFloat 'f | PyStr string

type_synonym 'f pydict = "(string \<times> 'f pyval) list"

definition quote :: "string \<Rightarrow> string" where
  "quote s = CHR 0x27 # s @ [CHR 0x27]"

text \<open>\<^verbatim>\<open>d.get(k)\<close> and \<^verbatim>\<open>d[k]\<close> on a dictionary kept as an association list.\<close>

definition dict_get :: "'f pydict \<Rightarrow> string \<Rightarrow> 'f pyval" where
  "dict_get d k = (case map_of d k of None \<Rightarrow> PyNone | Some v \<Rightarrow> v)"

definition dict_index :: "(string \<times> 'v) list \<Rightarrow> string \<Rightarrow> exn + 'v" where
  "dict_index d k = (case map_of d k of None \<Rightarrow> Inl (Exn KeyError (quote k)) | Some v \<Rightarrow> Inr v)"

definition of_opt_str :: "string option \<Rightarrow> 'f pyval" where
  "of_opt_str s = (case s of None \<Rightarrow> PyNone | Some t \<Rightarrow> PyStr t)"

text \<open>\<^verbatim>\<open>xs[i]\<close> for a non-negative constant index: IndexError out of range.\<close>

definition list_index :: "'a list \<Rightarrow> nat \<Rightarrow> exn + 'a" where
  "list_index xs i =
     (if i < length xs then Inr (xs ! i) else Inl (Exn IndexError ''list index out of range''))"

definition isspace :: "char \<Rightarrow> bool" where
  "isspace c = (c \<in> set [CHR 0x20, CHR 0x09, CHR 0x0A, CHR 0x0B, CHR 0x0C, CHR 0x0D,
                          CHR 0x1C, CHR 0x1D, CHR 0x1E, CHR 0x1F])"

definition strip :: "string \<Rightarrow> string" where
  "strip s = rev (dropWhile isspace (rev (dropWhile isspace s)))"

text \<open>\<^verbatim>\<open>s.split(sep)\<close> for a one-character separator: never the empty list.\<close>

fun split_on :: "char \<Rightarrow> string \<Rightarrow> string list" where
  "split_on sep [] = [[]]"
| "split_on sep (c # cs) =
     (if c = sep then [] # split_on sep cs
      else (case split_on sep cs of [] \<Rightarrow> [[c]] | w # ws \<Rightarrow> (c # w) # ws))"

text \<open>\<^verbatim>\<open>s.split(maxsplit=n)\<close> and \<^verbatim>\<open>s.split()\<close>: runs of whitespace separate.\<close>

primrec split_ws_max :: "nat \<Rightarrow> string \<Rightarrow> string list" where
  "split_ws_max 0 s = (let t = dropWhile isspace s in if t = [] then [] else [t])"
| "split_ws_max (Suc n) s =
     (let t = dropWhile isspace s in
      if t = [] then []
      else takeWhile (\<lambda>c. \<not> isspace c) t # split_ws_max n (dropWhile (\<lambda>c. \<not> isspace c) t))"

definition split_ws :: "string \<Rightarrow> string list" where
  "split_ws s = split_ws_max (length s) s"

fun startswith :: "string \<Rightarrow> string \<Rightarrow> bool" where
  "startswith s [] = True"
| "startswith [] (p # ps) = False"
| "startswith (c # cs) (p # ps) = (c = p \<and> startswith cs ps)"

text \<open>\<^verbatim>\<open>sub in s\<close>.\<close>

fun contains :: "string \<Rightarrow> string \<Rightarrow> bool" where
  "contains [] sub = (sub = [])"
| "contains (c # cs) sub = (startswith (c # cs) sub \<or> contains cs sub)"

definition lower_char :: "char \<Rightarrow> char" where
  "lower_char c =
     (let n = (of_char c :: nat) in if 65 \<le> n \<and> n \<le> 90 then char_of (n + 32) else c)"

definition lower :: "string \<Rightarrow> string" where
  "lower s = map lower_char s"

definition isdigit :: "string \<Rightarrow> bool" where
  "isdigit s = (s \<noteq> [] \<and> list_all (\<lambda>c. c \<in> set ''0123456789'') s)"

fun str_nat :: "nat \<Rightarrow> string" where
  "str_nat n =
     (if n < 10 then [''0123456789'' ! n] else str_nat (n div 10) @ [''0123456789'' ! (n mod 10)])"

declare str_nat.simps [simp del]

definition str_int :: "int \<Rightarrow> string" where
  "str_int i = (if i < 0 then CHR ''-'' # str_nat (nat (- i)) else str_nat (nat i))"

text \<open>
  The built-ins on numbers. \<open>fl_zero\<close> is \<^verbatim>\<open>0.0\<close>, \<open>fl_round2 x\<close> is \<^verbatim>\<open>round(x, 2)\<close>,
  \<open>fl_nonzero\<close> the truth value of a float, \<open>fl_div x n\<close> is \<^verbatim>\<open>x / n\<close> for a float and a
  non-zero integer, \<open>fl_truediv a b\<close> is \<^verbatim>\<open>a / b\<close> on integers, \<open>fl_repr\<close> is \<^verbatim>\<open>str\<close> on
  a float, \<open>py_float\<close>, \<open>py_int\<close> and \<open>fl_to_int\<close> are \<^verbatim>\<open>float(s)\<close>, \<^verbatim>\<open>int(s)\<close> and
  \<^verbatim>\<open>int(x)\<close>, which can raise.
\<close>

record 'f pyops =
  fl_zero :: 'f
  fl_round2 :: "'f \<Rightarrow> 'f"
  fl_nonzero :: "'f \<Rightarrow> bool"
  fl_div :: "'f \<Rightarrow> nat \<Rightarrow> 'f"
  fl_truediv :: "int \<Rightarrow> int \<Rightarrow> 'f"
  fl_repr :: "'f \<Rightarrow> string"
  py_float :: "string \<Rightarrow> exn + 'f"
  py_int :: "string \<Rightarrow> exn + int"
  fl_to_int :: "'f \<Rightarrow> exn + int"

fun truthy :: "'f pyops \<Rightarrow> 'f pyval \<Rightarrow> bool" where
  "truthy ops PyNone = False"
| "truthy ops (PyBool b) = b"
| "truthy ops (PyInt i) = (i \<noteq> 0)"
| "truthy ops (PyFloat x) = fl_nonzero ops x"
| "truthy ops (PyStr s) = (s \<noteq> [])"

fun py_str :: "'f pyops \<Rightarrow> 'f pyval \<Rightarrow> string" where
  "py_str ops PyNone = ''None''"
| "py_str ops (PyBool b) = (if b then ''True'' else ''False'')"
| "py_str ops (PyInt i) = str_int i"
| "py_str ops (PyFloat x) = fl_repr ops x"
| "py_str ops (PyStr s) = s"

section \<open>The process record and the host\<close>

text \<open>\<^verbatim>\<open>class ProcessInfo\<close>: the fields and their initial values from \<^verbatim>\<open>__init__\<close>.\<close>

record 'f ProcessInfo =
  pid :: int
  name :: "string option"
  user :: "string option"
  cpu_percent :: 'f
  memory_megabyte :: "'f option"
  status :: "string option"
  accessible :: bool
  error :: "string option"

definition ProcessInfo_init :: "'f pyops \<Rightarrow> int \<Rightarrow> 'f ProcessInfo" where
  "ProcessInfo_init ops p =
     \<lparr>pid = p, name = None, user = None, cpu_percent = fl_zero ops,
      memory_megabyte = Some (fl_zero ops), status = None, accessible = True, error = None\<rparr>"

text \<open>
  \<^verbatim>\<open>ProcessInfo.to_dict\<close>: eight keys in this order; the two numbers are rounded here,
  a missing memory figure becomes \<^verbatim>\<open>0.0\<close>.
\<close>

definition to_dict :: "'f pyops \<Rightarrow> 'f ProcessInfo \<Rightarrow> 'f pydict" where
  "to_dict ops p =
     [(''pid'', PyInt (pid p)),
      (''name'', of_opt_str (name p)),
      (''user'', of_opt_str (user p)),
      (''cpu_percent'', PyFloat (fl_round2 ops (cpu_percent p))),
      (''memory_megabyte'',
         (case memory_megabyte p of None \<Rightarrow> PyFloat (fl_zero ops)
          | Some m \<Rightarrow> PyFloat (fl_round2 ops m))),
      (''status'', of_opt_str (status p)),
      (''accessible'', PyBool (accessible p)),
      (''error'', of_opt_str (error p))]"

text \<open>
  What \<^verbatim>\<open>json.loads\<close> gives for the text of the PowerShell query of
  \<^verbatim>\<open>_get_process_info_windows\<close>: an object, of which the source reads the keys
  \<^verbatim>\<open>Name\<close>, \<^verbatim>\<open>User\<close> and \<^verbatim>\<open>Memory (MB)\<close> (the query computes the last as a rounded
  number), or a value of another Python type, named by \<open>JsonOther\<close>.
\<close>

datatype 'f proc_json =
    JsonObject "string option" "string option" "'f option"
  | JsonOther string

text \<open>
  The host: \<^verbatim>\<open>self.os\<close> (\<^verbatim>\<open>sys.platform\<close>) and the answers of the operating system,
  of \<^verbatim>\<open>psutil\<close>, \<^verbatim>\<open>subprocess.run\<close> and \<^verbatim>\<open>json.loads\<close>, one field per call site of
  the source. A subprocess gives its return code and its standard output, or raises.
  \<open>proc_meminfo\<close> and \<open>proc_iterdir\<close> give what was read before the end of the file or
  directory and the exception that ended the reading early, if any; a directory entry is
  \<^verbatim>\<open>(is_dir(), name)\<close>. \<open>psutil_is_running\<close> stands for
  \<^verbatim>\<open>psutil.Process(pid).is_running()\<close>, \<open>psutil_cpu_affinity\<close> for the length of
  \<^verbatim>\<open>psutil.Process(pid).cpu_affinity()\<close>, \<open>psutil_rss\<close> for
  \<^verbatim>\<open>psutil.Process(pid).memory_info().rss\<close>.
\<close>

record 'f host =
  py :: "'f pyops"
  os :: string
  sysctl_memsize :: "exn + (int \<times> string)"
  proc_meminfo :: "string list \<times> exn option"
  ps_total_memory :: "exn + (int \<times> string)"
  ps_axo_pid :: "exn + (int \<times> string)"
  proc_iterdir :: "(bool \<times> string) list \<times> exn option"
  ps_get_process_ids :: "exn + (int \<times> string)"
  status_exists :: "int \<Rightarrow> exn + bool"
  status_lines :: "int \<Rightarrow> exn + string list"
  psutil_username :: "int \<Rightarrow> exn + string"
  psutil_is_running :: "int \<Rightarrow> exn + bool"
  psutil_cpu_percent :: "int \<Rightarrow> exn + 'f"
  psutil_cpu_affinity :: "int \<Rightarrow> exn + nat"
  psutil_rss :: "int \<Rightarrow> exn + int"
  ps_p :: "int \<Rightarrow> exn + (int \<times> string)"
  ps_get_process :: "int \<Rightarrow> exn + (int \<times> string)"
  json_loads :: "string \<Rightarrow> exn + 'f proc_json"

section \<open>The CPU sampler and the status reader\<close>

text \<open>
  \<^verbatim>\<open>_get_cpu_usage\<close>: only \<^verbatim>\<open>psutil.NoSuchProcess\<close> and \<^verbatim>\<open>psutil.AccessDenied\<close> are
  caught here; any other exception goes on to the caller.
\<close>

definition get_cpu_usage :: "'f host \<Rightarrow> int \<Rightarrow> exn + 'f" where
  "get_cpu_usage h p =
     (case (case psutil_is_running h p of
              Inl e \<Rightarrow> Inl e
            | Inr running \<Rightarrow>
                if running then
                  (case psutil_cpu_percent h p of
                     Inl e \<Rightarrow> Inl e
                   | Inr c \<Rightarrow>
                      (case psutil_cpu_affinity h p of
                         Inl e \<Rightarrow> Inl e
                       | Inr n \<Rightarrow>
                           if n = 0 then Inl (Exn ZeroDivisionError ''float division by zero'')
                           else Inr (fl_div (py h) c n)))
                else Inr (fl_zero (py h))) of
        Inl e \<Rightarrow>
          if class_of e = NoSuchProcess \<or> class_of e = AccessDenied then Inr (fl_zero (py h))
          else Inl e
      | Inr c \<Rightarrow> Inr c)"

text \<open>
  \<^verbatim>\<open>_read_proc_status\<close>: \<^verbatim>\<open>None\<close> when the file is absent or anything raises, else the
  dictionary of the lines that hold a colon, split at the first one.
\<close>

definition add_status_line :: "(string \<times> string) list \<Rightarrow> string \<Rightarrow> (string \<times> string) list" where
  "add_status_line status_info line =
     (if CHR '':'' \<in> set line then
        AList.update (strip (takeWhile (\<lambda>c. c \<noteq> CHR '':'') line))
          (strip (tl (dropWhile (\<lambda>c. c \<noteq> CHR '':'') line))) status_info
      else status_info)"

definition read_proc_status :: "'f host \<Rightarrow> int \<Rightarrow> (string \<times> string) list option" where
  "read_proc_status h p =
     (case status_exists h p of
        Inl e \<Rightarrow> None
      | Inr there \<Rightarrow>
          if there then
            (case status_lines h p of
               Inl e \<Rightarrow> None
             | Inr ls \<Rightarrow> Some (foldl add_status_line [] ls))
          else None)"

section \<open>The three platform variants\<close>

text \<open>
  How a \<^verbatim>\<open>try\<close> block ends: it runs to its end, it executes a \<^verbatim>\<open>return\<close>, or it raises.
  The record is mutated as the block runs, so each block gives the record as it stands when
  the block ends, together with the way it ended.
\<close>

datatype flow = Fell | Returned | Raised exn

text \<open>
  What \<^verbatim>\<open>get_process_info\<close> hands back: the \<^verbatim>\<open>ProcessInfo\<close> object itself, the
  dictionary made by \<^verbatim>\<open>to_dict\<close>, or \<^verbatim>\<open>None\<close> when the function ends with no
  \<^verbatim>\<open>return\<close>.
\<close>

datatype 'f retval = RetObject "'f ProcessInfo" | RetDict "'f pydict" | RetNone

definition cannot_read :: "'f ProcessInfo \<Rightarrow> 'f ProcessInfo" where
  "cannot_read process = process\<lparr>accessible := False, error := Some ''Cannot read /proc/pid/stat''\<rparr>"

definition linux_try :: "'f host \<Rightarrow> int \<Rightarrow> 'f ProcessInfo \<Rightarrow> 'f ProcessInfo \<times> flow" where
  "linux_try h p process =
     (case read_proc_status h p of
        None \<Rightarrow> (cannot_read process, Returned)
      | Some stat_data \<Rightarrow>
          if stat_data = [] then (cannot_read process, Returned)
          else
            (case dict_index stat_data ''Name'' of
               Inl e \<Rightarrow> (process, Raised e)
             | Inr n \<Rightarrow>
                (case dict_index stat_data ''State'' of
                   Inl e \<Rightarrow> (process\<lparr>name := Some n\<rparr>, Raised e)
                 | Inr s \<Rightarrow>
                    (case psutil_username h p of
                       Inl e \<Rightarrow> (process\<lparr>name := Some n, status := Some s\<rparr>, Raised e)
                     | Inr u \<Rightarrow>
                        (case get_cpu_usage h p of
                           Inl e \<Rightarrow>
                             (process\<lparr>name := Some n, status := Some s, user := Some u\<rparr>, Raised e)
                         | Inr c \<Rightarrow>
                            (case psutil_rss h p of
                               Inl e \<Rightarrow>
                                 (process\<lparr>name := Some n, status := Some s, user := Some u,
                                    cpu_percent := c\<rparr>, Raised e)
                             | Inr rss \<Rightarrow>
                                 (process\<lparr>name := Some n, status := Some s, user := Some u,
                                    cpu_percent := c,
                                    memory_megabyte :=
                                      Some (fl_truediv (py h) rss (1024 * 1024))\<rparr>, Fell)))))))"

text \<open>
  \<^verbatim>\<open>_get_process_info_linux\<close>: the early \<^verbatim>\<open>return process\<close> hands back the object, the
  last line hands back \<^verbatim>\<open>process.to_dict()\<close>.
\<close>

definition get_process_info_linux :: "'f host \<Rightarrow> int \<Rightarrow> exn + 'f retval" where
  "get_process_info_linux h p =
     (case linux_try h p (ProcessInfo_init (py h) p) of
        (process, Returned) \<Rightarrow> Inr (RetObject process)
      | (process, Fell) \<Rightarrow> Inr (RetDict (to_dict (py h) process))
      | (process, Raised e) \<Rightarrow>
          if class_of e = PermissionError then
            Inr (RetDict (to_dict (py h)
              (process\<lparr>accessible := False, error := Some ''Permission denied''\<rparr>)))
          else
            Inr (RetDict (to_dict (py h)
              (process\<lparr>accessible := False, error := Some (str_exn e)\<rparr>))))"

definition no_command :: exn where
  "no_command =
     Exn AttributeError (quote ''ProcessInfo'' @ '' object has no attribute '' @ quote ''command'')"

definition macos_fields :: "'f host \<Rightarrow> int \<Rightarrow> string list \<Rightarrow> 'f ProcessInfo \<Rightarrow> 'f ProcessInfo \<times> flow" where
  "macos_fields h p fs proc_info =
     (case py_int (py h) (fs ! 0) of
        Inl e \<Rightarrow> (proc_info, Raised e)
      | Inr n \<Rightarrow>
         (case py_float (py h) (fs ! 2) of
            Inl e \<Rightarrow> (proc_info\<lparr>pid := n, user := Some (fs ! 1)\<rparr>, Raised e)
          | Inr c \<Rightarrow>
             (case py_float (py h) (fs ! 3) of
                Inl e \<Rightarrow>
                  (proc_info\<lparr>pid := n, user := Some (fs ! 1), cpu_percent := c\<rparr>, Raised e)
              | Inr m \<Rightarrow>
                  (proc_info\<lparr>pid := n, user := Some (fs ! 1), cpu_percent := c,
                     memory_megabyte := Some m, status := Some (fs ! 4)\<rparr>,
                   Raised no_command))))"

text \<open>
  \<^verbatim>\<open>_get_process_info_macos\<close>. The last statement of the \<^verbatim>\<open>try\<close> block reads
  \<^verbatim>\<open>proc_info.command\<close>, an attribute that \<^verbatim>\<open>ProcessInfo\<close> does not have: it raises
  AttributeError whenever it is reached. \<open>macos_fields\<close> is only applied to five fs or
  more, so its indices are in range. Every path hands back the object.
\<close>

definition macos_try :: "'f host \<Rightarrow> int \<Rightarrow> 'f ProcessInfo \<Rightarrow> 'f ProcessInfo \<times> flow" where
  "macos_try h p proc_info =
     (case ps_p h p of
        Inl e \<Rightarrow> (proc_info, Raised e)
      | Inr (returncode, stdout) \<Rightarrow>
          if returncode \<noteq> 0 \<or> strip stdout = [] then
            (proc_info\<lparr>accessible := False,
               error := Some ''Process not found or permission denied''\<rparr>, Returned)
          else if length (split_on (CHR 0x0A) (strip stdout)) < 2 then
            (proc_info\<lparr>accessible := False, error := Some ''Invalid ps output''\<rparr>, Returned)
          else if length (split_ws_max 6 (strip (split_on (CHR 0x0A) (strip stdout) ! 1))) < 5 then
            (proc_info\<lparr>accessible := False, error := Some ''Invalid ps output format''\<rparr>, Returned)
          else
            macos_fields h p (split_ws_max 6 (strip (split_on (CHR 0x0A) (strip stdout) ! 1)))
              proc_info)"

definition get_process_info_macos :: "'f host \<Rightarrow> int \<Rightarrow> exn + 'f retval" where
  "get_process_info_macos h p =
     (case macos_try h p (ProcessInfo_init (py h) p) of
        (proc_info, Raised e) \<Rightarrow>
          Inr (RetObject
            (proc_info\<lparr>accessible := False, error := Some (''Unexpected error: '' @ str_exn e)\<rparr>))
      | (proc_info, _) \<Rightarrow> Inr (RetObject proc_info))"

definition no_get :: "string \<Rightarrow> exn" where
  "no_get tn = Exn AttributeError (quote tn @ '' object has no attribute '' @ quote ''get'')"

definition windows_query :: "'f host \<Rightarrow> int \<Rightarrow> string \<Rightarrow> 'f ProcessInfo \<Rightarrow> 'f ProcessInfo \<times> flow" where
  "windows_query h p out process =
     (case json_loads h out of
        Inl e \<Rightarrow> (process, Raised e)
      | Inr (JsonOther tn) \<Rightarrow> (process\<lparr>accessible := True\<rparr>, Raised (no_get tn))
      | Inr (JsonObject n u m) \<Rightarrow>
         (case get_cpu_usage h p of
            Inl e \<Rightarrow>
              (process\<lparr>accessible := True, name := n, user := u, status := Some ''Running''\<rparr>,
               Raised e)
          | Inr c \<Rightarrow>
              (process\<lparr>accessible := True, name := n, user := u, status := Some ''Running'',
                 cpu_percent := c, memory_megabyte := m\<rparr>, Fell)))"

definition no_name :: "'f ProcessInfo \<Rightarrow> 'f ProcessInfo" where
  "no_name process =
     (if name process = None \<or> name process = Some [] then
        process\<lparr>accessible := False, error := Some ''Unable to retrieve process information''\<rparr>
      else process)"

definition windows_try :: "'f host \<Rightarrow> int \<Rightarrow> 'f ProcessInfo \<Rightarrow> 'f ProcessInfo \<times> flow" where
  "windows_try h p process =
     (case ps_get_process h p of
        Inl e \<Rightarrow> (process, Raised e)
      | Inr (returncode, stdout) \<Rightarrow>
          if returncode = 0 \<and> strip stdout \<noteq> [] then
            (case windows_query h p (strip stdout) process of
               (process', Fell) \<Rightarrow> (no_name process', Fell)
             | r \<Rightarrow> r)
          else (no_name process, Fell))"

text \<open>\<^verbatim>\<open>_get_process_info_windows\<close>: every path hands back \<^verbatim>\<open>process.to_dict()\<close>.\<close>

definition get_process_info_windows :: "'f host \<Rightarrow> int \<Rightarrow> exn + 'f retval" where
  "get_process_info_windows h p =
     (case windows_try h p (ProcessInfo_init (py h) p) of
        (process, Raised e) \<Rightarrow>
          Inr (RetDict (to_dict (py h) (process\<lparr>accessible := False, error := Some (str_exn e)\<rparr>)))
      | (process, _) \<Rightarrow> Inr (RetDict (to_dict (py h) process)))"

text \<open>
  \<^verbatim>\<open>get_process_info\<close>: an \<^verbatim>\<open>if\<close>/\<^verbatim>\<open>elif\<close> chain with no \<^verbatim>\<open>else\<close>; when no test holds
  the function ends without a \<^verbatim>\<open>return\<close>.
\<close>

definition get_process_info :: "'f host \<Rightarrow> int \<Rightarrow> exn + 'f retval" where
  "get_process_info h p =
     (if startswith (os h) ''linux'' then get_process_info_linux h p
      else if os h = ''darwin'' then get_process_info_macos h p
      else if contains (os h) ''win'' then get_process_info_windows h p
      else Inr RetNone)"

section \<open>The host memory probe and the PID enumerator\<close>

text \<open>
  The loop of \<^verbatim>\<open>_get_total_memory\<close> over the lines of \<^verbatim>\<open>/proc/meminfo\<close>: the result is
  what the enclosing \<^verbatim>\<open>try\<close> block does, \<open>Inl\<close> when it raises, \<open>Inr (Some v)\<close> when it
  executes \<^verbatim>\<open>return v\<close>, \<open>Inr None\<close> when the loop ends with no \<^verbatim>\<open>MemTotal:\<close> line.
\<close>

fun meminfo_scan :: "'f pyops \<Rightarrow> string list \<Rightarrow> exn option \<Rightarrow> exn + int option" where
  "meminfo_scan ops [] None = Inr None"
| "meminfo_scan ops [] (Some e) = Inl e"
| "meminfo_scan ops (line # ls) ex =
     (if startswith line ''MemTotal:'' then
        (case list_index (split_ws line) 1 of
           Inl e \<Rightarrow> Inl e
         | Inr t \<Rightarrow> (case py_int ops t of Inl e \<Rightarrow> Inl e | Inr v \<Rightarrow> Inr (Some (v * 1024))))
      else meminfo_scan ops ls ex)"

text \<open>
  The body of the outer \<^verbatim>\<open>try\<close> of \<^verbatim>\<open>_get_total_memory\<close>. On Windows an inner
  \<^verbatim>\<open>try\<close> catches every exception, prints, and lets the function run to its end.
\<close>

definition total_memory_try :: "'f host \<Rightarrow> exn + int option" where
  "total_memory_try h =
     (if contains (lower (os h)) ''darwin'' then
        (case sysctl_memsize h of
           Inl e \<Rightarrow> Inl e
         | Inr (returncode, stdout) \<Rightarrow>
             if returncode = 0 then
               (case list_index (split_on (CHR '':'') stdout) 1 of
                  Inl e \<Rightarrow> Inl e
                | Inr t \<Rightarrow>
                   (case py_int (py h) (strip t) of Inl e \<Rightarrow> Inl e | Inr v \<Rightarrow> Inr (Some v)))
             else Inr None)
      else if contains (lower (os h)) ''linux'' then
        meminfo_scan (py h) (fst (proc_meminfo h)) (snd (proc_meminfo h))
      else if contains (lower (os h)) ''win'' then
        (case (case ps_total_memory h of
                 Inl e \<Rightarrow> Inl e
               | Inr (returncode, stdout) \<Rightarrow>
                  (case py_float (py h) (strip stdout) of
                     Inl e \<Rightarrow> Inl e
                   | Inr x \<Rightarrow> fl_to_int (py h) x)) of
           Inl e \<Rightarrow> Inr None
         | Inr v \<Rightarrow> Inr (Some v))
      else Inr (Some 0))"

text \<open>\<^verbatim>\<open>_get_total_memory\<close>: \<open>None\<close> is Python's \<^verbatim>\<open>None\<close>, the value of a call that ends
  with no \<^verbatim>\<open>return\<close>.\<close>

definition get_total_memory :: "'f host \<Rightarrow> int option" where
  "get_total_memory h =
     (case total_memory_try h of
        Inl e \<Rightarrow> Some (8 * 1024 * 1024 * 1024)
      | Inr r \<Rightarrow> r)"

text \<open>
  The three loops of \<^verbatim>\<open>_get_pid_list\<close>. An exception that the loop's own \<^verbatim>\<open>except\<close> does
  not name ends the loop (the outer handler prints it); the PIDs appended so far stay.
\<close>

fun pids_darwin :: "'f pyops \<Rightarrow> string list \<Rightarrow> int list \<Rightarrow> int list" where
  "pids_darwin ops [] pids = pids"
| "pids_darwin ops (l # ls) pids =
     (case py_int ops (strip l) of
        Inr n \<Rightarrow> pids_darwin ops ls (pids @ [n])
      | Inl e \<Rightarrow> if class_of e = ValueError then pids_darwin ops ls pids else pids)"

fun pids_linux :: "'f pyops \<Rightarrow> (bool \<times> string) list \<Rightarrow> int list \<Rightarrow> int list" where
  "pids_linux ops [] pids = pids"
| "pids_linux ops ((is_dir, nm) # es) pids =
     (if is_dir \<and> isdigit nm then
        (case py_int ops nm of
           Inr n \<Rightarrow> pids_linux ops es (pids @ [n])
         | Inl e \<Rightarrow> pids)
      else pids_linux ops es pids)"

fun pids_windows :: "'f pyops \<Rightarrow> string list \<Rightarrow> int list \<Rightarrow> int list" where
  "pids_windows ops [] pids = pids"
| "pids_windows ops (l # ls) pids =
     (case list_index (split_ws l) 0 of
        Inl e \<Rightarrow> pids_windows ops ls pids
      | Inr t \<Rightarrow>
         (case py_int ops t of
            Inr n \<Rightarrow> pids_windows ops ls (pids @ [n])
          | Inl e \<Rightarrow>
              if class_of e = ValueError \<or> class_of e = IndexError then pids_windows ops ls pids
              else pids))"

definition found_pids :: "'f host \<Rightarrow> int list" where
  "found_pids h =
     (if os h = ''darwin'' then
        (case ps_axo_pid h of
           Inl e \<Rightarrow> []
         | Inr (returncode, stdout) \<Rightarrow>
             if returncode = 0 then
               pids_darwin (py h) (drop 1 (split_on (CHR 0x0A) (strip stdout))) []
             else [])
      else if startswith (os h) ''linux'' then pids_linux (py h) (fst (proc_iterdir h)) []
      else if contains (os h) ''win'' then
        (case ps_get_process_ids h of
           Inl e \<Rightarrow> []
         | Inr (returncode, stdout) \<Rightarrow>
             if returncode = 0 then
               pids_windows (py h) (drop 3 (split_on (CHR 0x0A) (strip stdout))) []
             else [])
      else [])"

text \<open>\<^verbatim>\<open>_get_pid_list\<close>: \<^verbatim>\<open>sorted(pids, reverse=True)\<close>.\<close>

definition get_pid_list :: "'f host \<Rightarrow> int list" where
  "get_pid_list h = rev (sort (found_pids h))"

section \<open>The collection engine\<close>

text \<open>
  The variables of the loop of \<^verbatim>\<open>collect_processes\<close>, and \<open>probed\<close>: the PIDs on which
  \<^verbatim>\<open>get_process_info\<close> has been called, in the order of the calls.
\<close>

record 'f loop_state =
  processes :: "'f pydict list"
  denied_processes :: "'f pydict list"
  accessible_count :: int
  denied_count :: int
  probed :: "int list"

definition pid_placeholder :: "int \<Rightarrow> string" where
  "pid_placeholder p = ''pid_'' @ str_int p"

text \<open>The \<^verbatim>\<open>except Exception as e\<close> branch of the loop, \<open>m\<close> being \<^verbatim>\<open>str(e)\<close>.\<close>

definition denied_by_exception :: "bool \<Rightarrow> int \<Rightarrow> string \<Rightarrow> 'f loop_state \<Rightarrow> 'f loop_state" where
  "denied_by_exception include_denied_details p m st =
     st\<lparr>denied_count := denied_count st + 1,
        denied_processes :=
          (if include_denied_details then
             denied_processes st @
               [[(''pid'', PyInt p), (''error'', PyStr m), (''name'', PyStr (pid_placeholder p))]]
           else denied_processes st)\<rparr>"

text \<open>
  One iteration. \<^verbatim>\<open>proc_info.get\<close> exists on a dictionary only: on a \<^verbatim>\<open>ProcessInfo\<close>
  object and on \<^verbatim>\<open>None\<close> it raises AttributeError inside the \<^verbatim>\<open>try\<close>, which the loop's
  handler counts as denied.
\<close>

definition collect_step :: "'f host \<Rightarrow> bool \<Rightarrow> 'f loop_state \<Rightarrow> int \<Rightarrow> 'f loop_state" where
  "collect_step h include_denied_details st0 p =
     (let st = st0\<lparr>probed := probed st0 @ [p]\<rparr> in
      case get_process_info h p of
        Inl e \<Rightarrow> denied_by_exception include_denied_details p (str_exn e) st
      | Inr RetNone \<Rightarrow>
          denied_by_exception include_denied_details p (str_exn (no_get ''NoneType'')) st
      | Inr (RetObject obj) \<Rightarrow>
          denied_by_exception include_denied_details p (str_exn (no_get ''ProcessInfo'')) st
      | Inr (RetDict proc_info) \<Rightarrow>
          if truthy (py h) (dict_get proc_info ''accessible'') then
            st\<lparr>processes := processes st @ [proc_info],
               accessible_count := accessible_count st + 1\<rparr>
          else
            st\<lparr>denied_count := denied_count st + 1,
               denied_processes :=
                 (if include_denied_details then
                    denied_processes st @
                      [[(''pid'', PyInt p), (''error'', dict_get proc_info ''error''),
                        (''name'',
                           (if truthy (py h) (dict_get proc_info ''name'')
                            then dict_get proc_info ''name''
                            else PyStr (pid_placeholder p)))]]
                  else denied_processes st)\<rparr>)"

definition init_state :: "'f loop_state" where
  "init_state =
     \<lparr>processes = [], denied_processes = [], accessible_count = 0, denied_count = 0, probed = []\<rparr>"

text \<open>\<^verbatim>\<open>pids = self._get_pid_list()\<close>, then \<^verbatim>\<open>pids = pids[:max_processes]\<close> under the
  test \<^verbatim>\<open>max_processes > 0\<close>.\<close>

definition limited_pids :: "'f host \<Rightarrow> int \<Rightarrow> int list" where
  "limited_pids h max_processes =
     (if max_processes > 0 then take (nat max_processes) (get_pid_list h) else get_pid_list h)"

definition collect_loop :: "'f host \<Rightarrow> bool \<Rightarrow> int \<Rightarrow> 'f loop_state" where
  "collect_loop h include_denied_details max_processes =
     foldl (collect_step h include_denied_details) init_state (limited_pids h max_processes)"

record 'f access_info =
  total_found_process :: int
  accessible_processes :: int
  permission_denied :: int
  denied_details :: "'f pydict list option"

text \<open>\<^verbatim>\<open>collect_processes\<close>; \<^verbatim>\<open>verbose\<close> only prints.\<close>

definition collect_processes ::
    "'f host \<Rightarrow> bool \<Rightarrow> bool \<Rightarrow> int \<Rightarrow> 'f pydict list \<times> 'f access_info" where
  "collect_processes h verbose include_denied_details max_processes =
     (let pids = limited_pids h max_processes;
          st = collect_loop h include_denied_details max_processes
      in (processes st,
          \<lparr>total_found_process = int (length pids),
           accessible_processes = accessible_count st,
           permission_denied = denied_count st,
           denied_details =
             (if include_denied_details \<and> denied_processes st \<noteq> [] then Some (denied_processes st)
              else None)\<rparr>))"

section \<open>The output formatter\<close>

text \<open>
  \<^verbatim>\<open>OutputFormatter\<close>. \<open>args\<close> holds the three options that the formatter reads; a report
  is the dictionary \<^verbatim>\<open>data\<close>: \<open>data_processes\<close> is \<open>None\<close> when the key
  \<^verbatim>\<open>processes\<close> is absent, the other two are \<open>None\<close> when \<^verbatim>\<open>data.get\<close> gives nothing
  (or an empty value); their contents are not looked at and have the type \<open>'x\<close>.
\<close>

record args =
  advanced :: bool
  include_system_info :: bool
  show_denied :: bool

record ('f, 'x) report =
  data_processes :: "'f pydict list option"
  data_system_info :: "'x option"
  data_denied_processes :: "'x option"

datatype 'x sysinfo = Collected 'x | NotCollected

record ('f, 'x) json_doc =
  doc_processes :: "'f pydict list"
  doc_system_info :: "'x sysinfo option"
  doc_denied_processes :: "'x option"

definition attribute_of_none :: "string \<Rightarrow> exn" where
  "attribute_of_none a =
     Exn AttributeError (quote ''NoneType'' @ '' object has no attribute '' @ quote a)"

text \<open>\<^verbatim>\<open>[process[k] for k in keys]\<close>, paired with the keys: the first missing key raises.\<close>

fun pick :: "'f pydict \<Rightarrow> string list \<Rightarrow> exn + 'f pydict" where
  "pick process [] = Inr []"
| "pick process (k # ks) =
     (case dict_index process k of
        Inl e \<Rightarrow> Inl e
      | Inr v \<Rightarrow> (case pick process ks of Inl e \<Rightarrow> Inl e | Inr r \<Rightarrow> Inr ((k, v) # r)))"

definition basic_keys :: "string list" where
  "basic_keys = [''pid'', ''name'', ''user'', ''cpu_percent'', ''memory_megabyte'']"

fun basic_records :: "'f pydict list \<Rightarrow> exn + 'f pydict list" where
  "basic_records [] = Inr []"
| "basic_records (process # ps) =
     (case pick process basic_keys of
        Inl e \<Rightarrow> Inl e
      | Inr r \<Rightarrow> (case basic_records ps of Inl e \<Rightarrow> Inl e | Inr rs \<Rightarrow> Inr (r # rs)))"

text \<open>
  \<^verbatim>\<open>to_json\<close>, up to the dictionary \<^verbatim>\<open>return_json\<close> that it passes to
  \<^verbatim>\<open>json.dumps\<close>. \<^verbatim>\<open>args\<close> defaults to \<^verbatim>\<open>None\<close>, on which \<^verbatim>\<open>args.advanced\<close>
  raises.
\<close>

definition to_json_doc :: "('f, 'x) report \<Rightarrow> args option \<Rightarrow> exn + ('f, 'x) json_doc" where
  "to_json_doc data a =
     (case a of
        None \<Rightarrow> Inl (attribute_of_none ''advanced'')
      | Some ar \<Rightarrow>
         (case data_processes data of
            None \<Rightarrow> Inl (Exn KeyError (quote ''processes''))
          | Some ps \<Rightarrow>
             (case (if \<not> advanced ar then basic_records ps else Inr ps) of
                Inl e \<Rightarrow> Inl e
              | Inr rs \<Rightarrow>
                  Inr \<lparr>doc_processes = rs,
                       doc_system_info =
                         (if include_system_info ar then
                            (case data_system_info data of
                               Some i \<Rightarrow> Some (Collected i)
                             | None \<Rightarrow> Some NotCollected)
                          else None),
                       doc_denied_processes =
                         (if show_denied ar then data_denied_processes data else None)\<rparr>)))"

text \<open>\<^verbatim>\<open>sep.join(xs)\<close>.\<close>

fun join :: "string \<Rightarrow> string list \<Rightarrow> string" where
  "join sep [] = []"
| "join sep [x] = x"
| "join sep (x # y # ys) = x @ sep @ join sep (y # ys)"

text \<open>\<^verbatim>\<open>",".join(str(process[key]) for key in headers)\<close> for each process in turn.\<close>

fun csv_cells :: "'f pyops \<Rightarrow> 'f pydict \<Rightarrow> string list \<Rightarrow> exn + string list" where
  "csv_cells ops process [] = Inr []"
| "csv_cells ops process (k # ks) =
     (case dict_index process k of
        Inl e \<Rightarrow> Inl e
      | Inr v \<Rightarrow>
         (case csv_cells ops process ks of Inl e \<Rightarrow> Inl e | Inr r \<Rightarrow> Inr (py_str ops v # r)))"

fun csv_rows :: "'f pyops \<Rightarrow> string list \<Rightarrow> 'f pydict list \<Rightarrow> exn + string list" where
  "csv_rows ops headers [] = Inr []"
| "csv_rows ops headers (process # ps) =
     (case csv_cells ops process headers of
        Inl e \<Rightarrow> Inl e
      | Inr cells \<Rightarrow>
         (case csv_rows ops headers ps of
            Inl e \<Rightarrow> Inl e
          | Inr rows \<Rightarrow> Inr (join '','' cells # rows)))"

text \<open>
  \<^verbatim>\<open>to_csv\<close>. It re-reads its own JSON text with \<^verbatim>\<open>json.loads\<close>; on dictionaries of
  the values of \<open>pyval\<close> with string keys that round trip gives the dictionary back, keys
  in the same order, so the model goes on with \<^verbatim>\<open>return_json\<close> itself.
\<close>

definition to_csv :: "'f pyops \<Rightarrow> ('f, 'x) report \<Rightarrow> args option \<Rightarrow> exn + string" where
  "to_csv ops data a =
     (case to_json_doc data a of
        Inl e \<Rightarrow> Inl e
      | Inr doc \<Rightarrow>
         (case doc_processes doc of
            [] \<Rightarrow> Inl (Exn ValueError ''No process data passed.'')
          | first # rest \<Rightarrow>
             (case csv_rows ops (map fst first) (first # rest) of
                Inl e \<Rightarrow> Inl e
              | Inr rows \<Rightarrow> Inr (join [CHR 0x0A] (join '','' (map fst first) # rows)))))"

text \<open>The keys of \<^verbatim>\<open>to_dict\<close>, and the header of the CSV text for a list of such
  records: all eight keys in advanced mode, the five of the summary otherwise.\<close>

definition all_keys :: "string list" where
  "all_keys = [''pid'', ''name'', ''user'', ''cpu_percent'', ''memory_megabyte'', ''status'',
               ''accessible'', ''error'']"

definition csv_keys :: "args \<Rightarrow> string list" where
  "csv_keys a = (if advanced a then all_keys else basic_keys)"

section \<open>Example hosts\<close>

text \<open>
  Concrete hosts on which the definitions are evaluated. Floats are integers here, and
  \<open>digits_int\<close> reads a non-empty string of ASCII digits as \<^verbatim>\<open>int\<close> does.
\<close>

definition digits_int :: "string \<Rightarrow> exn + int" where
  "digits_int s =
     (if isdigit s then Inr (foldl (\<lambda>a c. 10 * a + (int (of_char c) - 48)) 0 s)
      else Inl (Exn ValueError (''invalid literal for int() with base 10: '' @ quote s)))"

definition example_ops :: "int pyops" where
  "example_ops =
     \<lparr>fl_zero = 0, fl_round2 = (\<lambda>x. x), fl_nonzero = (\<lambda>x. x \<noteq> 0),
      fl_div = (\<lambda>x n. x div int n), fl_truediv = (\<lambda>a b. a div b), fl_repr = str_int,
      py_float = digits_int, py_int = digits_int, fl_to_int = Inr\<rparr>"

definition unavailable :: exn where
  "unavailable = Exn OtherException ''unavailable''"

text \<open>A host of an unsupported platform: nothing answers.\<close>

definition freebsd_host :: "int host" where
  "freebsd_host =
     \<lparr>py = example_ops, os = ''freebsd13'',
      sysctl_memsize = Inl unavailable, proc_meminfo = ([], Some unavailable),
      ps_total_memory = Inl unavailable, ps_axo_pid = Inl unavailable,
      proc_iterdir = ([], Some unavailable), ps_get_process_ids = Inl unavailable,
      status_exists = (\<lambda>p. Inl unavailable), status_lines = (\<lambda>p. Inl unavailable),
      psutil_username = (\<lambda>p. Inl unavailable), psutil_is_running = (\<lambda>p. Inl unavailable),
      psutil_cpu_percent = (\<lambda>p. Inl unavailable), psutil_cpu_affinity = (\<lambda>p. Inl unavailable),
      psutil_rss = (\<lambda>p. Inl unavailable), ps_p = (\<lambda>p. Inl unavailable),
      ps_get_process = (\<lambda>p. Inl unavailable), json_loads = (\<lambda>s. Inl unavailable)\<rparr>"

text \<open>
  A Linux host with the processes 10, 20, 30, 40 and 50; the owner of process 40 cannot be
  read (\<^verbatim>\<open>psutil.AccessDenied\<close>), and process 20 has gone when its status file is looked for.
\<close>

definition linux_host :: "int host" where
  "linux_host =
     freebsd_host
     \<lparr>os := ''linux'',
      proc_meminfo :=
        ([''MemFree: 100 kB'' @ [CHR 0x0A], ''MemTotal: 2048 kB'' @ [CHR 0x0A]], None),
      proc_iterdir :=
        ([(True, ''10''), (True, ''50''), (False, ''version''), (True, ''30''), (True, ''self''),
          (True, ''40''), (True, ''20'')], None),
      status_exists := (\<lambda>p. Inr (p \<noteq> 20)),
      status_lines :=
        (\<lambda>p. Inr [''Name:'' @ [CHR 0x09] @ ''bash'' @ [CHR 0x0A],
                   ''State:'' @ [CHR 0x09] @ ''S (sleeping)'' @ [CHR 0x0A]]),
      psutil_username :=
        (\<lambda>p. if p = 40 then Inl (Exn AccessDenied ''(pid=40)'') else Inr ''root''),
      psutil_is_running := (\<lambda>p. Inr True),
      psutil_cpu_percent := (\<lambda>p. Inr 8),
      psutil_cpu_affinity := (\<lambda>p. Inr 4),
      psutil_rss := (\<lambda>p. Inr 3145728)\<rparr>"

text \<open>The same host, where reading the owner of any process raises an exception whose
  text is empty (as \<^verbatim>\<open>str(MemoryError())\<close> is).\<close>

definition silent_host :: "int host" where
  "silent_host = linux_host\<lparr>psutil_username := (\<lambda>p. Inl (Exn OtherException []))\<rparr>"

text \<open>A process record, a report of such records, and the options of the basic CSV.\<close>

definition example_record :: "int \<Rightarrow> int ProcessInfo" where
  "example_record p =
     \<lparr>pid = p, name = Some ''bash'', user = Some ''root'', cpu_percent = 2,
      memory_megabyte = Some 3, status = Some ''S (sleeping)'', accessible = True, error = None\<rparr>"

definition example_report :: "int ProcessInfo list \<Rightarrow> (int, unit) report" where
  "example_report rs =
     \<lparr>data_processes = Some (map (to_dict example_ops) rs), data_system_info = None,
      data_denied_processes = None\<rparr>"

definition basic_args :: args where
  "basic_args = \<lparr>advanced = False, include_system_info = False, show_denied = False\<rparr>"

section \<open>Reading a result\<close>

text \<open>
  The \<^verbatim>\<open>accessible\<close> and \<^verbatim>\<open>error\<close> fields of what \<^verbatim>\<open>get_process_info\<close> hands back,
  as Python values, whichever form the record has.
\<close>

fun ret_accessible :: "'f retval \<Rightarrow> 'f pyval" where
  "ret_accessible (RetObject r) = PyBool (accessible r)"
| "ret_accessible (RetDict d) = dict_get d ''accessible''"
| "ret_accessible RetNone = PyNone"

fun ret_error :: "'f retval \<Rightarrow> 'f pyval" where
  "ret_error (RetObject r) = of_opt_str (error r)"
| "ret_error (RetDict d) = dict_get d ''error''"
| "ret_error RetNone = PyNone"

fun raised :: "flow \<Rightarrow> exn option" where
  "raised (Raised e) = Some e"
| "raised Fell = None"
| "raised Returned = None"

text \<open>The exception, if any, that reaches the \<^verbatim>\<open>except\<close> clauses of the variant that
  \<^verbatim>\<open>get_process_info\<close> selects.\<close>

definition caught_exn :: "'f host \<Rightarrow> int \<Rightarrow> exn option" where
  "caught_exn h p =
     (if startswith (os h) ''linux'' then raised (snd (linux_try h p (ProcessInfo_init (py h) p)))
      else if os h = ''darwin'' then raised (snd (macos_try h p (ProcessInfo_init (py h) p)))
      else if contains (os h) ''win'' then
        raised (snd (windows_try h p (ProcessInfo_init (py h) p)))
      else None)"

text \<open>
  The invariant of a returned record, for the PID \<open>p\<close> it was asked for: either it is
  accessible and has no error, or it is not and its error is a string, which is empty only
  when it is the text of a caught exception whose own text is empty.
\<close>

definition flag_and_error :: "'f host \<Rightarrow> int \<Rightarrow> 'f retval \<Rightarrow> bool" where
  "flag_and_error h p ret =
     ((ret_accessible ret = PyBool True \<and> ret_error ret = PyNone)
      \<or> (ret_accessible ret = PyBool False
          \<and> (\<exists>m. ret_error ret = PyStr m
                \<and> (m = [] \<longrightarrow> (\<exists>e. caught_exn h p = Some e \<and> str_exn e = [])))))"

section \<open>The engine's loop\<close>

lemma collect_step_probed: "probed (collect_step h d st p) = probed st @ [p]"
  by (simp add: collect_step_def denied_by_exception_def Let_def split: sum.splits retval.splits)

lemma foldl_collect_probed: "probed (foldl (collect_step h d) st ps) = probed st @ ps"
  by (induction ps arbitrary: st) (simp_all add: collect_step_probed)

lemma collect_loop_probed: "probed (collect_loop h d N) = limited_pids h N"
  by (simp add: collect_loop_def foldl_collect_probed init_state_def)

lemma collect_step_counts:
  "accessible_count (collect_step h d st p) + denied_count (collect_step h d st p)
     = accessible_count st + denied_count st + 1"
  by (simp add: collect_step_def denied_by_exception_def Let_def split: sum.splits retval.splits)

lemma foldl_collect_counts:
  "accessible_count (foldl (collect_step h d) st ps) + denied_count (foldl (collect_step h d) st ps)
     = accessible_count st + denied_count st + int (length ps)"
  by (induction ps arbitrary: st) (simp_all add: collect_step_counts)

lemma collect_loop_counts:
  "accessible_count (collect_loop h d N) + denied_count (collect_loop h d N)
     = int (length (limited_pids h N))"
  by (simp add: collect_loop_def foldl_collect_counts init_state_def)


lemma length_get_pid_list: "length (get_pid_list h) = length (found_pids h)"
  by (simp add: get_pid_list_def)

lemma linux_host_pids: "get_pid_list linux_host = [50, 40, 30, 20, 10]"
  by code_simp

lemma linux_host_found: "length (found_pids linux_host) = 5"
  by code_simp



text \<open>
  C3. The two counters of the access summary add up to the number of PIDs probed, whatever
  each call hands back or raises.
\<close>

theorem counts_partition_probed:
  "accessible_processes (snd (collect_processes h v d N))
     + permission_denied (snd (collect_processes h v d N))
   = int (length (probed (collect_loop h d N)))"
  by (simp add: collect_processes_def Let_def collect_loop_counts collect_loop_probed)

lemma linux_host_all_accessible:
  "accessible_processes (snd (collect_processes linux_host False True 0)) = 3"
  by code_simp

lemma linux_host_all_denied:
  "permission_denied (snd (collect_processes linux_host False True 0)) = 2"
  by code_simp

theorem counts_partition_probed_witness:
  "accessible_processes (snd (collect_processes linux_host False True 0)) = 3
   \<and> permission_denied (snd (collect_processes linux_host False True 0)) = 2
   \<and> length (probed (collect_loop linux_host True 0)) = 5"
  using counts_partition_probed [of linux_host False True 0]
    linux_host_all_accessible linux_host_all_denied
  by simp

section \<open>What the variants hand back\<close>

lemma to_dict_accessible [simp]: "dict_get (to_dict ops r) ''accessible'' = PyBool (accessible r)"
  by (simp add: to_dict_def dict_get_def)

lemma to_dict_error [simp]: "dict_get (to_dict ops r) ''error'' = of_opt_str (error r)"
  by (simp add: to_dict_def dict_get_def)

lemma to_dict_pid [simp]: "dict_get (to_dict ops r) ''pid'' = PyInt (pid r)"
  by (simp add: to_dict_def dict_get_def)

lemma linux_try_pid: "pid (fst (linux_try h p process)) = pid process"
  by (simp add: linux_try_def cannot_read_def split: option.splits sum.splits)

lemma linux_try_flag:
  "linux_try h p process = (r, fl) \<Longrightarrow> accessible process \<Longrightarrow> error process = None \<Longrightarrow>
     (fl = Fell \<longrightarrow> accessible r \<and> error r = None)
   \<and> (fl = Returned \<longrightarrow> \<not> accessible r \<and> error r = Some ''Cannot read /proc/pid/stat'')"
  unfolding linux_try_def cannot_read_def
  by (auto split: option.splits sum.splits if_splits)

lemma windows_query_pid: "pid (fst (windows_query h p out process)) = pid process"
  by (simp add: windows_query_def split: sum.splits proc_json.splits)

lemma no_name_pid [simp]: "pid (no_name process) = pid process"
  by (simp add: no_name_def)

lemma windows_query_flag:
  "windows_query h p out process = (r, fl) \<Longrightarrow> error process = None \<Longrightarrow>
     fl \<noteq> Returned \<and> (fl = Fell \<longrightarrow> accessible r \<and> error r = None)"
  unfolding windows_query_def
  by (auto split: sum.splits proc_json.splits)

lemma no_name_flag:
  "error process = None \<Longrightarrow> accessible process \<Longrightarrow>
     (accessible (no_name process) \<and> error (no_name process) = None)
   \<or> (\<not> accessible (no_name process)
        \<and> error (no_name process) = Some ''Unable to retrieve process information'')"
  by (simp add: no_name_def)

lemma windows_try_pid: "pid (fst (windows_try h p process)) = pid process"
proof (cases "ps_get_process h p")
  case (Inl e)
  then show ?thesis by (simp add: windows_try_def)
next
  case (Inr res)
  obtain rc out where res: "res = (rc, out)" by (cases res)
  obtain r fl where q: "windows_query h p (strip out) process = (r, fl)"
    by (cases "windows_query h p (strip out) process")
  have "pid r = pid process"
    using windows_query_pid [of h p "strip out" process] q by simp
  then show ?thesis
    using Inr res q by (cases fl) (simp_all add: windows_try_def)
qed

lemma windows_try_flag:
  assumes "windows_try h p process = (r, fl)" "accessible process" "error process = None"
  shows "fl \<noteq> Returned \<and> (fl = Fell \<longrightarrow> (accessible r \<and> error r = None)
        \<or> (\<not> accessible r \<and> error r = Some ''Unable to retrieve process information''))"
proof (cases "ps_get_process h p")
  case (Inl e)
  then show ?thesis using assms(1) by (auto simp add: windows_try_def)
next
  case (Inr res)
  obtain rc out where res: "res = (rc, out)" by (cases res)
  show ?thesis
  proof (cases "rc = 0 \<and> strip out \<noteq> []")
    case False
    then have "windows_try h p process = (no_name process, Fell)"
      using Inr res by (auto simp add: windows_try_def)
    then show ?thesis using assms no_name_flag [of process] by auto
  next
    case True
    obtain r' fl' where q: "windows_query h p (strip out) process = (r', fl')"
      by (cases "windows_query h p (strip out) process")
    note qf = windows_query_flag [OF q assms(3)]
    show ?thesis
    proof (cases fl')
      case Fell
      then have "windows_try h p process = (no_name r', Fell)"
        using Inr res True q by (simp add: windows_try_def)
      then show ?thesis using assms(1) qf Fell no_name_flag [of r'] by auto
    next
      case Returned
      then show ?thesis using qf by simp
    next
      case (Raised e)
      then have "windows_try h p process = (r', Raised e)"
        using Inr res True q by (simp add: windows_try_def)
      then show ?thesis using assms(1) by auto
    qed
  qed
qed

lemma macos_fields_flag: "\<exists>e. snd (macos_fields h p fs proc_info) = Raised e"
  by (simp add: macos_fields_def split: sum.splits)

lemma macos_try_flag:
  assumes "macos_try h p proc_info = (r, fl)"
  shows "fl \<noteq> Fell \<and> (fl = Returned \<longrightarrow> \<not> accessible r \<and> (\<exists>m. error r = Some m \<and> m \<noteq> []))"
proof (cases "ps_p h p")
  case (Inl e)
  then show ?thesis using assms by (auto simp add: macos_try_def)
next
  case (Inr res)
  obtain rc out where res: "res = (rc, out)" by (cases res)
  let ?fs = "split_ws_max 6 (strip (split_on (CHR 0x0A) (strip out) ! 1))"
  obtain e where e: "snd (macos_fields h p ?fs proc_info) = Raised e"
    using macos_fields_flag by blast
  show ?thesis
    using assms Inr res e
    by (auto simp add: macos_try_def split: if_splits)
qed

lemma linux_returns_record:
  "\<exists>r. (get_process_info_linux h p = Inr (RetObject r) \<or>
        get_process_info_linux h p = Inr (RetDict (to_dict (py h) r))) \<and> pid r = p"
proof -
  obtain r fl where t: "linux_try h p (ProcessInfo_init (py h) p) = (r, fl)"
    by (cases "linux_try h p (ProcessInfo_init (py h) p)")
  have "pid r = p"
    using linux_try_pid [of h p "ProcessInfo_init (py h) p"] t by (simp add: ProcessInfo_init_def)
  then show ?thesis
    using t by (cases fl) (auto simp add: get_process_info_linux_def)
qed

lemma macos_returns_record: "\<exists>r. get_process_info_macos h p = Inr (RetObject r)"
proof -
  obtain r fl where t: "macos_try h p (ProcessInfo_init (py h) p) = (r, fl)"
    by (cases "macos_try h p (ProcessInfo_init (py h) p)")
  then show ?thesis
    by (cases fl) (auto simp add: get_process_info_macos_def)
qed

text \<open>
  On macOS no record is ever accessible: the variant either returns early with an error or
  reaches the read of \<^verbatim>\<open>proc_info.command\<close>, which raises.
\<close>

lemma macos_always_denied:
  "\<exists>r. get_process_info_macos h p = Inr (RetObject r) \<and> \<not> accessible r"
proof -
  obtain r fl where t: "macos_try h p (ProcessInfo_init (py h) p) = (r, fl)"
    by (cases "macos_try h p (ProcessInfo_init (py h) p)")
  note f = macos_try_flag [OF t]
  show ?thesis
    using t f by (cases fl) (auto simp add: get_process_info_macos_def)
qed

lemma windows_returns_record:
  "\<exists>r. get_process_info_windows h p = Inr (RetDict (to_dict (py h) r)) \<and> pid r = p"
proof -
  obtain r fl where t: "windows_try h p (ProcessInfo_init (py h) p) = (r, fl)"
    by (cases "windows_try h p (ProcessInfo_init (py h) p)")
  have "pid r = p"
    using windows_try_pid [of h p "ProcessInfo_init (py h) p"] t by (simp add: ProcessInfo_init_def)
  then show ?thesis
    using t by (cases fl) (auto simp add: get_process_info_windows_def)
qed

lemma get_process_info_returns: "\<exists>ret. get_process_info h p = Inr ret"
  using linux_returns_record [of h p] macos_returns_record [of h p] windows_returns_record [of h p]
  by (auto simp add: get_process_info_def)

lemma get_process_info_dict:
  assumes "get_process_info h p = Inr (RetDict d)"
  shows "\<exists>r. d = to_dict (py h) r \<and> pid r = p"
  using assms linux_returns_record [of h p] macos_returns_record [of h p]
    windows_returns_record [of h p]
  by (auto simp add: get_process_info_def split: if_splits)

section \<open>The records the engine returns\<close>

lemma collect_step_processes:
  assumes "\<forall>r \<in> set (processes st). dict_get r ''accessible'' = PyBool True
              \<and> (\<exists>q \<in> set (probed st). dict_get r ''pid'' = PyInt q)"
  shows "\<forall>r \<in> set (processes (collect_step h d st p)). dict_get r ''accessible'' = PyBool True
              \<and> (\<exists>q \<in> set (probed (collect_step h d st p)). dict_get r ''pid'' = PyInt q)"
proof -
  obtain ret where ret: "get_process_info h p = Inr ret"
    using get_process_info_returns by blast
  show ?thesis
  proof (cases ret)
    case (RetDict proc_info)
    obtain r where r: "proc_info = to_dict (py h) r" "pid r = p"
      using get_process_info_dict ret RetDict by blast
    show ?thesis
      using assms ret RetDict r
      by (auto simp add: collect_step_def Let_def)
  next
    case (RetObject obj)
    then show ?thesis
      using assms ret by (auto simp add: collect_step_def Let_def denied_by_exception_def)
  next
    case RetNone
    then show ?thesis
      using assms ret by (auto simp add: collect_step_def Let_def denied_by_exception_def)
  qed
qed

lemma foldl_collect_processes:
  assumes "\<forall>r \<in> set (processes st). dict_get r ''accessible'' = PyBool True
              \<and> (\<exists>q \<in> set (probed st). dict_get r ''pid'' = PyInt q)"
  shows "\<forall>r \<in> set (processes (foldl (collect_step h d) st ps)).
            dict_get r ''accessible'' = PyBool True
              \<and> (\<exists>q \<in> set (probed (foldl (collect_step h d) st ps)). dict_get r ''pid'' = PyInt q)"
  using assms
proof (induction ps arbitrary: st)
  case Nil
  then show ?case by simp
next
  case (Cons p ps)
  have "\<forall>r \<in> set (processes (collect_step h d st p)). dict_get r ''accessible'' = PyBool True
              \<and> (\<exists>q \<in> set (probed (collect_step h d st p)). dict_get r ''pid'' = PyInt q)"
    using collect_step_processes [OF Cons.prems] .
  from Cons.IH [OF this] show ?case by simp
qed

lemma collect_step_lengths:
  "int (length (processes (collect_step h d st p))) - accessible_count (collect_step h d st p)
     = int (length (processes st)) - accessible_count st
   \<and> int (length (denied_processes (collect_step h d st p)))
       - (if d then denied_count (collect_step h d st p) else 0)
     = int (length (denied_processes st)) - (if d then denied_count st else 0)"
  by (simp add: collect_step_def denied_by_exception_def Let_def split: sum.splits retval.splits)

lemma foldl_collect_lengths:
  "int (length (processes (foldl (collect_step h d) st ps)))
       - accessible_count (foldl (collect_step h d) st ps)
     = int (length (processes st)) - accessible_count st
   \<and> int (length (denied_processes (foldl (collect_step h d) st ps)))
       - (if d then denied_count (foldl (collect_step h d) st ps) else 0)
     = int (length (denied_processes st)) - (if d then denied_count st else 0)"
proof (induction ps arbitrary: st)
  case Nil
  then show ?case by simp
next
  case (Cons p ps)
  show ?case
    using Cons.IH [of "collect_step h d st p"] collect_step_lengths [of h d st p]
    by (cases d) simp_all
qed

lemma collect_loop_lengths:
  "int (length (processes (collect_loop h d N))) = accessible_count (collect_loop h d N)"
  "d \<Longrightarrow> int (length (denied_processes (collect_loop h d N))) = denied_count (collect_loop h d N)"
  "\<not> d \<Longrightarrow> denied_processes (collect_loop h d N) = []"
  using foldl_collect_lengths [of h d init_state "limited_pids h N"]
  by (simp_all add: collect_loop_def init_state_def)

lemma collect_loop_processes:
  "\<forall>r \<in> set (processes (collect_loop h d N)). dict_get r ''accessible'' = PyBool True
      \<and> (\<exists>q \<in> set (probed (collect_loop h d N)). dict_get r ''pid'' = PyInt q)"
  unfolding collect_loop_def
  by (rule foldl_collect_processes) (simp add: init_state_def)

text \<open>
  C9. Every record in the returned sequence has \<^verbatim>\<open>accessible\<close> equal to \<^verbatim>\<open>True\<close> and
  carries the PID of a probed process; there are as many records as \<^verbatim>\<open>accessible_processes\<close>
  says, the denied PIDs are only counted (records and denied count add up to the PIDs probed),
  and \<^verbatim>\<open>denied_details\<close> is present exactly when it was asked for and something was
  denied, with one entry per denied PID.
\<close>

theorem returned_records_accessible:
  "(\<forall>r \<in> set (fst (collect_processes h v d N)).
       dict_get r ''accessible'' = PyBool True
       \<and> (\<exists>q \<in> set (probed (collect_loop h d N)). dict_get r ''pid'' = PyInt q))
   \<and> int (length (fst (collect_processes h v d N)))
       = accessible_processes (snd (collect_processes h v d N))
   \<and> int (length (fst (collect_processes h v d N)))
       + permission_denied (snd (collect_processes h v d N))
       = int (length (probed (collect_loop h d N)))
   \<and> (case denied_details (snd (collect_processes h v d N)) of
         None \<Rightarrow> \<not> d \<or> permission_denied (snd (collect_processes h v d N)) = 0
       | Some ds \<Rightarrow> d \<and> int (length ds) = permission_denied (snd (collect_processes h v d N)))"
proof -
  have a: "\<forall>r \<in> set (fst (collect_processes h v d N)).
       dict_get r ''accessible'' = PyBool True
       \<and> (\<exists>q \<in> set (probed (collect_loop h d N)). dict_get r ''pid'' = PyInt q)"
    using collect_loop_processes [of h d N] by (simp add: collect_processes_def Let_def)
  have b: "int (length (fst (collect_processes h v d N)))
       = accessible_processes (snd (collect_processes h v d N))"
    by (simp add: collect_processes_def Let_def collect_loop_lengths(1))
  have c: "int (length (fst (collect_processes h v d N)))
       + permission_denied (snd (collect_processes h v d N))
       = int (length (probed (collect_loop h d N)))"
    using collect_loop_counts [of h d N]
    by (simp add: collect_processes_def Let_def collect_loop_lengths(1) collect_loop_probed)
  have e: "(case denied_details (snd (collect_processes h v d N)) of
         None \<Rightarrow> \<not> d \<or> permission_denied (snd (collect_processes h v d N)) = 0
       | Some ds \<Rightarrow> d \<and> int (length ds) = permission_denied (snd (collect_processes h v d N)))"
  proof (cases d)
    case True
    then show ?thesis
      using collect_loop_lengths(2) [of d h N]
      by (auto simp add: collect_processes_def Let_def)
  next
    case False
    then show ?thesis by (simp add: collect_processes_def Let_def)
  qed
  from a b c e show ?thesis by blast
qed

lemma linux_host_report:
  "collect_processes linux_host False True 0 =
    ([to_dict example_ops
        \<lparr>pid = 50, name = Some ''bash'', user = Some ''root'', cpu_percent = 2,
         memory_megabyte = Some 3, status = Some ''S (sleeping)'', accessible = True,
         error = None\<rparr>,
      to_dict example_ops
        \<lparr>pid = 30, name = Some ''bash'', user = Some ''root'', cpu_percent = 2,
         memory_megabyte = Some 3, status = Some ''S (sleeping)'', accessible = True,
         error = None\<rparr>,
      to_dict example_ops
        \<lparr>pid = 10, name = Some ''bash'', user = Some ''root'', cpu_percent = 2,
         memory_megabyte = Some 3, status = Some ''S (sleeping)'', accessible = True,
         error = None\<rparr>],
     \<lparr>total_found_process = 5, accessible_processes = 3, permission_denied = 2,
      denied_details =
        Some [[(''pid'', PyInt 40), (''error'', PyStr ''(pid=40)''), (''name'', PyStr ''bash'')],
              [(''pid'', PyInt 20),
               (''error'', PyStr (str_exn (no_get ''ProcessInfo''))),
               (''name'', PyStr ''pid_20'')]]\<rparr>)"
  by code_simp

theorem returned_records_accessible_witness:
  "length (fst (collect_processes linux_host False True 0)) = 3
   \<and> permission_denied (snd (collect_processes linux_host False True 0)) = 2
   \<and> dict_get (hd (fst (collect_processes linux_host False True 0))) ''accessible'' = PyBool True
   \<and> (case denied_details (snd (collect_processes linux_host False True 0)) of
         None \<Rightarrow> False | Some ds \<Rightarrow> length ds = 2)"
  using returned_records_accessible [of linux_host False True 0] linux_host_report
  by simp

text \<open>
  C10. With a limit of zero or less the list is not cut: every enumerated PID is probed, and
  the call returns its report as usual.
\<close>

theorem nonpositive_limit_probes_all:
  assumes "N \<le> 0"
  shows "probed (collect_loop h d N) = get_pid_list h
       \<and> length (probed (collect_loop h d N)) = length (found_pids h)
       \<and> total_found_process (snd (collect_processes h v d N)) = int (length (found_pids h))"
  using assms
  by (simp add: collect_loop_probed limited_pids_def length_get_pid_list collect_processes_def
      Let_def)

lemma linux_host_negative_limit:
  "collect_processes linux_host False True (- 1) = collect_processes linux_host False True 0"
  by code_simp

theorem nonpositive_limit_probes_all_witness:
  "(- 1 :: int) \<le> 0
   \<and> probed (collect_loop linux_host True (- 1)) = [50, 40, 30, 20, 10]
   \<and> total_found_process (snd (collect_processes linux_host False True (- 1))) = 5
   \<and> length (fst (collect_processes linux_host False True (- 1))) = 3"
  using nonpositive_limit_probes_all [of "- 1" linux_host True False]
    linux_host_pids linux_host_found linux_host_negative_limit linux_host_report
  by simp

text \<open>
  C5. The claim fails: \<^verbatim>\<open>pids\<close> is overwritten by the cut list before \<^verbatim>\<open>len(pids)\<close> is
  stored, so five enumerated PIDs with a limit of three give a total of three.
\<close>

theorem total_found_counterexample:
  "total_found_process (snd (collect_processes linux_host False False 3)) = 3
   \<and> length (get_pid_list linux_host) = 5"
  by code_simp

text \<open>
  C5, amended. \<^verbatim>\<open>total_found_process\<close> is the number of PIDs after the cut, that is the
  number probed: \<open>min N\<close> of the number enumerated for \<open>N > 0\<close>, all of them otherwise.
\<close>

theorem total_found_is_probed:
  "total_found_process (snd (collect_processes h v d N))
     = int (length (probed (collect_loop h d N)))
   \<and> total_found_process (snd (collect_processes h v d N))
     = (if 0 < N then int (min (nat N) (length (found_pids h))) else int (length (found_pids h)))"
  by (simp add: collect_processes_def Let_def collect_loop_probed limited_pids_def
      length_get_pid_list min.commute)

theorem total_found_is_probed_witness:
  "total_found_process (snd (collect_processes linux_host False False 3)) = 3
   \<and> length (probed (collect_loop linux_host False 3)) = 3"
  using total_found_is_probed [of linux_host False False 3] linux_host_found
  by simp

section \<open>The accessible flag and the error text\<close>

lemma linux_caught:
  assumes "startswith (os h) ''linux''"
    and "linux_try h p (ProcessInfo_init (py h) p) = (r, Raised e)"
  shows "caught_exn h p = Some e"
  using assms by (simp add: caught_exn_def)

lemma of_opt_str_Some [simp]: "of_opt_str (Some m) = PyStr m"
  by (simp add: of_opt_str_def)

lemma of_opt_str_None [simp]: "of_opt_str None = PyNone"
  by (simp add: of_opt_str_def)

lemma init_flags [simp]:
  "accessible (ProcessInfo_init ops p)" "error (ProcessInfo_init ops p) = None"
  by (simp_all add: ProcessInfo_init_def)

lemma linux_flag_and_error:
  assumes os: "startswith (os h) ''linux''"
  shows "\<exists>ret. get_process_info h p = Inr ret \<and> ret \<noteq> RetNone \<and> flag_and_error h p ret"
proof -
  obtain r fl where t: "linux_try h p (ProcessInfo_init (py h) p) = (r, fl)"
    by (cases "linux_try h p (ProcessInfo_init (py h) p)")
  note f = linux_try_flag [OF t init_flags]
  have g: "get_process_info h p = get_process_info_linux h p"
    using os by (simp add: get_process_info_def)
  show ?thesis
  proof (cases fl)
    case Fell
    then show ?thesis using t f g
      by (simp add: get_process_info_linux_def flag_and_error_def)
  next
    case Returned
    then show ?thesis using t f g
      by (simp add: get_process_info_linux_def flag_and_error_def)
  next
    case (Raised e)
    have c: "caught_exn h p = Some e"
      using os t Raised by (simp add: caught_exn_def)
    show ?thesis using t g Raised c
      by (simp add: get_process_info_linux_def flag_and_error_def)
  qed
qed

lemma macos_flag_and_error:
  assumes os: "\<not> startswith (os h) ''linux''" "os h = ''darwin''"
  shows "\<exists>ret. get_process_info h p = Inr ret \<and> ret \<noteq> RetNone \<and> flag_and_error h p ret"
proof -
  obtain r fl where t: "macos_try h p (ProcessInfo_init (py h) p) = (r, fl)"
    by (cases "macos_try h p (ProcessInfo_init (py h) p)")
  note f = macos_try_flag [OF t]
  have g: "get_process_info h p = get_process_info_macos h p"
    using os by (simp add: get_process_info_def)
  show ?thesis
  proof (cases fl)
    case Fell
    then show ?thesis using f by simp
  next
    case Returned
    then show ?thesis using t f g
      by (auto simp add: get_process_info_macos_def flag_and_error_def)
  next
    case (Raised e)
    then show ?thesis using t g
      by (simp add: get_process_info_macos_def flag_and_error_def)
  qed
qed

lemma windows_flag_and_error:
  assumes os: "\<not> startswith (os h) ''linux''" "os h \<noteq> ''darwin''" "contains (os h) ''win''"
  shows "\<exists>ret. get_process_info h p = Inr ret \<and> ret \<noteq> RetNone \<and> flag_and_error h p ret"
proof -
  obtain r fl where t: "windows_try h p (ProcessInfo_init (py h) p) = (r, fl)"
    by (cases "windows_try h p (ProcessInfo_init (py h) p)")
  note f = windows_try_flag [OF t init_flags]
  have g: "get_process_info h p = get_process_info_windows h p"
    using os by (simp add: get_process_info_def)
  show ?thesis
  proof (cases fl)
    case Fell
    then show ?thesis using t f g
      by (auto simp add: get_process_info_windows_def flag_and_error_def)
  next
    case Returned
    then show ?thesis using f by simp
  next
    case (Raised e)
    have c: "caught_exn h p = Some e"
      using os t Raised by (simp add: caught_exn_def)
    show ?thesis using t g Raised c
      by (simp add: get_process_info_windows_def flag_and_error_def)
  qed
qed

lemma supported_flag_and_error:
  assumes "startswith (os h) ''linux'' \<or> os h = ''darwin'' \<or> contains (os h) ''win''"
  shows "\<exists>ret. get_process_info h p = Inr ret \<and> ret \<noteq> RetNone \<and> flag_and_error h p ret"
  using assms linux_flag_and_error [of h p] macos_flag_and_error [of h p]
    windows_flag_and_error [of h p]
  by blast

lemma unsupported_none:
  assumes "\<not> startswith (os h) ''linux''" "os h \<noteq> ''darwin''" "\<not> contains (os h) ''win''"
  shows "get_process_info h p = Inr RetNone"
  using assms by (simp add: get_process_info_def)

text \<open>
  C4. The claim fails where the error text is \<^verbatim>\<open>str(e)\<close>: on the Linux host whose owner
  lookup raises an exception with an empty text, the record is inaccessible and its error
  is the empty string.
\<close>

theorem empty_error_counterexample:
  "get_process_info silent_host 50 =
     Inr (RetDict
       [(''pid'', PyInt 50), (''name'', PyStr ''bash''), (''user'', PyNone),
        (''cpu_percent'', PyFloat 0), (''memory_megabyte'', PyFloat 0),
        (''status'', PyStr ''S (sleeping)''), (''accessible'', PyBool False),
        (''error'', PyStr [])])"
  by code_simp

text \<open>
  C4, amended. Every record that \<^verbatim>\<open>get_process_info\<close> hands back has a boolean
  \<^verbatim>\<open>accessible\<close>; when it is true the error is \<^verbatim>\<open>None\<close>; when it is false the error is a
  string, and that string is empty only if it is the text of the exception that the variant
  caught and that text is itself empty.
\<close>

theorem error_field_matches_flag:
  assumes "get_process_info h p = Inr ret" and "ret \<noteq> RetNone"
  shows "(ret_accessible ret = PyBool True \<or> ret_accessible ret = PyBool False)
       \<and> (ret_accessible ret = PyBool True \<longrightarrow> ret_error ret = PyNone)
       \<and> (ret_accessible ret = PyBool False \<longrightarrow>
            (\<exists>m. ret_error ret = PyStr m
               \<and> (m = [] \<longrightarrow> (\<exists>e. caught_exn h p = Some e \<and> str_exn e = []))))"
proof -
  have "startswith (os h) ''linux'' \<or> os h = ''darwin'' \<or> contains (os h) ''win''"
    using assms unsupported_none [of h p] by auto
  then have "flag_and_error h p ret"
    using supported_flag_and_error [of h p] assms(1) by auto
  then show ?thesis
    by (auto simp add: flag_and_error_def)
qed

lemma linux_host_40:
  "get_process_info linux_host 40 =
     Inr (RetDict
       [(''pid'', PyInt 40), (''name'', PyStr ''bash''), (''user'', PyNone),
        (''cpu_percent'', PyFloat 0), (''memory_megabyte'', PyFloat 0),
        (''status'', PyStr ''S (sleeping)''), (''accessible'', PyBool False),
        (''error'', PyStr ''(pid=40)'')])"
  by code_simp

theorem error_field_matches_flag_witness:
  "ret_accessible (RetDict
       [(''pid'', PyInt 40), (''name'', PyStr ''bash''), (''user'', PyNone),
        (''cpu_percent'', PyFloat (0::int)), (''memory_megabyte'', PyFloat 0),
        (''status'', PyStr ''S (sleeping)''), (''accessible'', PyBool False),
        (''error'', PyStr ''(pid=40)'')]) = PyBool False
   \<and> (\<exists>m. ret_error (RetDict
       [(''pid'', PyInt 40), (''name'', PyStr ''bash''), (''user'', PyNone),
        (''cpu_percent'', PyFloat (0::int)), (''memory_megabyte'', PyFloat 0),
        (''status'', PyStr ''S (sleeping)''), (''accessible'', PyBool False),
        (''error'', PyStr ''(pid=40)'')]) = PyStr m)"
  using error_field_matches_flag [OF linux_host_40]
  by (simp add: dict_get_def)

text \<open>
  C1. On a platform that is none of the three, \<^verbatim>\<open>get_process_info\<close> runs off the end of
  its \<^verbatim>\<open>if\<close>/\<^verbatim>\<open>elif\<close> chain and hands back \<^verbatim>\<open>None\<close>, not a record.
\<close>

theorem unsupported_platform_returns_none:
  "get_process_info freebsd_host 1 = Inr RetNone"
  by code_simp

lemma meminfo_scan_raises:
  assumes "\<forall>l \<in> set ls. \<not> startswith l ''MemTotal:''"
  shows "meminfo_scan ops ls (Some e) = Inl e"
  using assms by (induction ls) simp_all

text \<open>
  Where the probe ends with no \<^verbatim>\<open>return\<close>: a failing PowerShell query on Windows (its own
  handler only prints), a non-zero exit of \<^verbatim>\<open>sysctl\<close> on macOS.
\<close>

lemma total_memory_falls_through:
  "\<not> contains (lower (os h)) ''darwin'' \<Longrightarrow> \<not> contains (lower (os h)) ''linux'' \<Longrightarrow>
     contains (lower (os h)) ''win'' \<Longrightarrow> ps_total_memory h = Inl e \<Longrightarrow>
     get_total_memory h = None"
  "contains (lower (os h)) ''darwin'' \<Longrightarrow> sysctl_memsize h = Inr (1, out) \<Longrightarrow>
     get_total_memory h = None"
  by (simp_all add: get_total_memory_def total_memory_try_def)

text \<open>
  C6. The claim fails: on a platform that is none of the three the probe returns 0.
\<close>

theorem total_memory_counterexample:
  "get_total_memory freebsd_host = Some 0"
  by code_simp

text \<open>
  C6, amended. When the body of the probe raises, the result is the default of 8 GiB,
  8589934592, which is positive. That is the case on macOS when the \<^verbatim>\<open>sysctl\<close> call raises
  or its output cannot be read as a number after the colon, and on Linux when reading
  \<^verbatim>\<open>/proc/meminfo\<close> raises before a \<^verbatim>\<open>MemTotal:\<close> line is met or that line cannot be
  read as a number. On a platform that is none of the three the result is 0.
\<close>

theorem total_memory_fallback:
  "(total_memory_try h = Inl e \<longrightarrow>
      get_total_memory h = Some 8589934592 \<and> (0::int) < 8589934592)
   \<and> (contains (lower (os h)) ''darwin'' \<and> sysctl_memsize h = Inl e \<longrightarrow>
        total_memory_try h = Inl e)
   \<and> (contains (lower (os h)) ''darwin'' \<and> sysctl_memsize h = Inr (0, out)
        \<and> list_index (split_on (CHR '':'') out) 1 = Inr t \<and> py_int (py h) (strip t) = Inl e \<longrightarrow>
        total_memory_try h = Inl e)
   \<and> (\<not> contains (lower (os h)) ''darwin'' \<and> contains (lower (os h)) ''linux''
        \<and> proc_meminfo h = (ls, Some e) \<and> (\<forall>l \<in> set ls. \<not> startswith l ''MemTotal:'') \<longrightarrow>
        total_memory_try h = Inl e)
   \<and> (\<not> contains (lower (os h)) ''darwin'' \<and> contains (lower (os h)) ''linux''
        \<and> proc_meminfo h = (l # ls, None) \<and> startswith l ''MemTotal:''
        \<and> list_index (split_ws l) 1 = Inr t \<and> py_int (py h) t = Inl e \<longrightarrow>
        total_memory_try h = Inl e)
   \<and> (\<not> contains (lower (os h)) ''darwin'' \<and> \<not> contains (lower (os h)) ''linux''
        \<and> \<not> contains (lower (os h)) ''win'' \<longrightarrow>
        get_total_memory h = Some 0)"
  by (auto simp add: get_total_memory_def total_memory_try_def meminfo_scan_raises)

lemma unreadable_meminfo:
  "get_total_memory (linux_host\<lparr>proc_meminfo := ([], Some unavailable)\<rparr>) = Some 8589934592"
  by code_simp

lemma unreadable_meminfo_try:
  "total_memory_try (linux_host\<lparr>proc_meminfo := ([], Some unavailable)\<rparr>) = Inl unavailable"
  by code_simp

theorem total_memory_fallback_witness:
  "total_memory_try (linux_host\<lparr>proc_meminfo := ([], Some unavailable)\<rparr>) = Inl unavailable
   \<and> get_total_memory (linux_host\<lparr>proc_meminfo := ([], Some unavailable)\<rparr>) = Some 8589934592
   \<and> get_total_memory linux_host = Some 2097152"
proof -
  have "get_total_memory linux_host = Some 2097152" by code_simp
  then show ?thesis
    using total_memory_fallback
      [of "linux_host\<lparr>proc_meminfo := ([], Some unavailable)\<rparr>" unavailable]
      unreadable_meminfo_try
    by simp
qed

section \<open>The CSV text\<close>

lemma dict_index_present:
  "k \<in> fst ` set d \<Longrightarrow> dict_index d k = Inr (dict_get d k)"
  by (auto simp add: dict_index_def dict_get_def map_of_eq_None_iff split: option.splits)

lemma csv_cells_present:
  "set ks \<subseteq> fst ` set d \<Longrightarrow>
     csv_cells ops d ks = Inr (map (\<lambda>k. py_str ops (dict_get d k)) ks)"
  by (induction ks) (simp_all add: dict_index_present)

lemma csv_rows_present:
  "\<forall>d \<in> set ds. set ks \<subseteq> fst ` set d \<Longrightarrow>
     csv_rows ops ks ds =
       Inr (map (\<lambda>d. join '','' (map (\<lambda>k. py_str ops (dict_get d k)) ks)) ds)"
  by (induction ds) (simp_all add: csv_cells_present)

lemma pick_present:
  "set ks \<subseteq> fst ` set d \<Longrightarrow> pick d ks = Inr (map (\<lambda>k. (k, dict_get d k)) ks)"
  by (induction ks) (simp_all add: dict_index_present)

lemma basic_records_present:
  "\<forall>d \<in> set ds. set basic_keys \<subseteq> fst ` set d \<Longrightarrow>
     basic_records ds = Inr (map (\<lambda>d. map (\<lambda>k. (k, dict_get d k)) basic_keys) ds)"
  by (induction ds) (simp_all add: pick_present)

lemma to_dict_keys: "map fst (to_dict ops r) = all_keys"
  by (simp add: to_dict_def all_keys_def)

lemma to_dict_has_keys:
  "set all_keys \<subseteq> fst ` set (to_dict ops r)" "set basic_keys \<subseteq> fst ` set (to_dict ops r)"
  by (simp_all add: to_dict_def all_keys_def basic_keys_def)

lemma picked_get:
  "k \<in> set ks \<Longrightarrow> dict_get (map (\<lambda>k. (k, dict_get d k)) ks) k = dict_get d k"
  by (induction ks) (auto simp add: dict_get_def)

lemma map_fst_picked: "map fst (map (\<lambda>k. (k, f k)) ks) = ks"
  by (induction ks) simp_all

lemma fst_set_picked: "fst ` set (map (\<lambda>k. (k, f k)) ks) = set ks"
  by (induction ks) auto

lemma to_csv_empty:
  "data_processes data = Some [] \<Longrightarrow>
     to_csv ops data (Some a) = Inl (Exn ValueError ''No process data passed.'')"
  by (simp add: to_csv_def to_json_doc_def)

lemma to_csv_advanced:
  assumes "advanced a" "data_processes data = Some (map (to_dict ops) (r # rs))"
  shows "to_csv ops data (Some a) =
           Inr (join [CHR 0x0A]
             (join '','' all_keys #
              map (\<lambda>x. join '','' (map (\<lambda>k. py_str ops (dict_get (to_dict ops x) k)) all_keys))
                (r # rs)))"
proof -
  have "csv_rows ops all_keys (map (to_dict ops) (r # rs)) =
      Inr (map (\<lambda>d. join '','' (map (\<lambda>k. py_str ops (dict_get d k)) all_keys))
             (map (to_dict ops) (r # rs)))"
    by (rule csv_rows_present) (auto simp add: to_dict_def all_keys_def)
  then show ?thesis
    using assms by (simp add: to_csv_def to_json_doc_def to_dict_keys comp_def)
qed

lemma to_csv_basic:
  assumes "\<not> advanced a" "data_processes data = Some (map (to_dict ops) (r # rs))"
  shows "to_csv ops data (Some a) =
           Inr (join [CHR 0x0A]
             (join '','' basic_keys #
              map (\<lambda>x. join '','' (map (\<lambda>k. py_str ops (dict_get (to_dict ops x) k)) basic_keys))
                (r # rs)))"
proof -
  let ?pk = "\<lambda>d. map (\<lambda>k. (k, dict_get d k)) basic_keys"
  have b: "basic_records (map (to_dict ops) (r # rs)) = Inr (map ?pk (map (to_dict ops) (r # rs)))"
    by (rule basic_records_present) (auto simp add: to_dict_def basic_keys_def)
  have c: "csv_rows ops basic_keys (map ?pk (map (to_dict ops) (r # rs))) =
      Inr (map (\<lambda>d. join '','' (map (\<lambda>k. py_str ops (dict_get d k)) basic_keys))
             (map ?pk (map (to_dict ops) (r # rs))))"
    by (rule csv_rows_present) (force simp add: image_image)
  have d: "map (\<lambda>k. py_str ops (dict_get (?pk x) k)) basic_keys
         = map (\<lambda>k. py_str ops (dict_get x k)) basic_keys" for x :: "'a pydict"
    by (rule map_cong) (simp_all add: picked_get)
  show ?thesis
    using assms b c
    by (simp add: to_csv_def to_json_doc_def map_fst_picked comp_def d del: basic_records.simps csv_rows.simps)
qed

text \<open>
  C8. Given its options, \<^verbatim>\<open>to_csv\<close> raises \<^verbatim>\<open>ValueError("No process data passed.")\<close> on
  a report whose process list is empty; on a non-empty list of process records it returns
  the header, made of the keys of the first record, followed by one line per record, each
  the \<^verbatim>\<open>str\<close> of the record's values under those keys, joined by commas, the lines
  joined by line feeds.
\<close>

theorem to_csv_report:
  "(data_processes data = Some [] \<longrightarrow>
      to_csv ops data (Some a) = Inl (Exn ValueError ''No process data passed.''))
   \<and> (data_processes data = Some (map (to_dict ops) (r # rs)) \<longrightarrow>
      to_csv ops data (Some a) =
        Inr (join [CHR 0x0A]
          (join '','' (csv_keys a) #
           map (\<lambda>x. join '','' (map (\<lambda>k. py_str ops (dict_get (to_dict ops x) k)) (csv_keys a)))
             (r # rs))))"
  using to_csv_empty [of data ops a] to_csv_advanced [of a data ops r rs]
    to_csv_basic [of a data ops r rs]
  by (simp add: csv_keys_def)


lemma example_csv_text:
  "join [CHR 0x0A]
     (join '','' (csv_keys basic_args) #
      map (\<lambda>x. join '','' (map (\<lambda>k. py_str example_ops (dict_get (to_dict example_ops x) k))
             (csv_keys basic_args)))
        [example_record 50, example_record 30])
   = ''pid,name,user,cpu_percent,memory_megabyte'' @ [CHR 0x0A] @ ''50,bash,root,2,3''
       @ [CHR 0x0A] @ ''30,bash,root,2,3''"
  by code_simp

theorem to_csv_report_witness:
  "to_csv example_ops (example_report []) (Some basic_args)
     = Inl (Exn ValueError ''No process data passed.'')
   \<and> to_csv example_ops (example_report [example_record 50, example_record 30]) (Some basic_args)
     = Inr (''pid,name,user,cpu_percent,memory_megabyte'' @ [CHR 0x0A] @ ''50,bash,root,2,3''
              @ [CHR 0x0A] @ ''30,bash,root,2,3'')"
  using to_csv_report [of "example_report []" example_ops basic_args]
    to_csv_report [of "example_report [example_record 50, example_record 30]" example_ops
      basic_args "example_record 50" "[example_record 30]"]
    example_csv_text
  by (simp add: example_report_def)

lemma to_csv_without_args:
  "to_csv ops data None = Inl (attribute_of_none ''advanced'')"
  by (simp add: to_csv_def to_json_doc_def)

end
